theory Spec2Isabelle
  imports Main
begin

section \<open>serve-local.py: a static file server with CORS headers\<close>

text \<open>
  The script changes into its own directory, checks that the build output \<open>dist\<close>
  exists, changes into it, binds a \<open>socketserver.TCPServer\<close> on a fixed address
  and serves requests with a \<open>SimpleHTTPRequestHandler\<close> whose \<open>end_headers\<close>
  is overridden, until a \<open>KeyboardInterrupt\<close> arrives.

  The embedding has two layers. The script itself (\<open>main\<close> and the method
  \<open>CORSHTTPRequestHandler.end_headers\<close>) is translated statement by statement.
  What it calls in the Python standard library (\<open>os.chdir\<close>, \<open>Path.exists\<close>,
  \<open>print\<close>, \<open>sys.exit\<close>, \<open>TCPServer\<close>, \<open>serve_forever\<close> and the
  base request handler of \<open>http.server\<close>) is modelled after the CPython 3.11
  library, with the file system, the network and the signals as an explicit
  environment.
\<close>

subsection \<open>Configuration\<close>

definition PORT :: nat where
  "PORT = 8000"

definition HOST :: string where
  "HOST = ''localhost''"

subsection \<open>The environment\<close>

text \<open>
  A path is absolute: the list of its components below the root. (Since Python 3.9
  \<open>__file__\<close> of the main script is absolute, so \<open>Path(__file__).parent\<close> is.)
\<close>

type_synonym path = "string list"

datatype node = Dir | File string

text \<open>
  One connection accepted by the server, as far as the handler looks at it:
  the words of the request line, and what the library computes from the rest.
\<close>

record request =
  too_long :: bool  \<comment> \<open>the request line is longer than 65536 bytes\<close>
  requestline :: "string list"  \<comment> \<open>\<open>requestline.split()\<close>\<close>
  target :: "string list"
    \<comment> \<open>the URL's path, query and fragment cut off and percent-escapes decoded, split at \<open>/\<close>\<close>
  ends_slash :: bool  \<comment> \<open>the URL's path ends with a slash\<close>
  location :: string
    \<comment> \<open>the URL with a slash added to its path (\<open>urlunsplit\<close>), for a redirect\<close>
  bad_headers :: bool  \<comment> \<open>\<open>parse_headers\<close> raises (a line too long, too many headers)\<close>
  cache_hit :: bool  \<comment> \<open>an \<open>If-Modified-Since\<close> not older than the file, no \<open>If-None-Match\<close>\<close>

record env =
  argv :: "string list"  \<comment> \<open>the command line, which the script never reads\<close>
  start_cwd :: path  \<comment> \<open>the working directory the process starts in\<close>
  project_dir :: path  \<comment> \<open>\<open>Path(__file__).parent\<close>\<close>
  fs :: "path \<Rightarrow> node option"  \<comment> \<open>the file system\<close>
  listdir :: "path \<Rightarrow> string list option"  \<comment> \<open>\<open>os.listdir\<close>; \<open>None\<close> is an \<open>OSError\<close>\<close>
  guess_type :: "path \<Rightarrow> string"  \<comment> \<open>the MIME type by extension\<close>
  mtime :: "path \<Rightarrow> string"  \<comment> \<open>the formatted modification time\<close>
  date_time :: string  \<comment> \<open>the formatted current time\<close>
  version_string :: string  \<comment> \<open>the \<open>Server\<close> header's value\<close>
  bind_error :: "string \<Rightarrow> nat \<Rightarrow> string option"
    \<comment> \<open>the \<open>errno\<close> name with which binding the address fails, \<open>None\<close> when it succeeds\<close>
  sigint_at :: "nat option"
    \<comment> \<open>the step at which the interrupt signal is delivered, if it ever is\<close>
  incoming :: "nat \<Rightarrow> request option"
    \<comment> \<open>the connection that is ready at a step of the serve loop, if any\<close>

subsection \<open>The base request handler (http.server)\<close>

text \<open>
  What the handler writes, item by item: the status line, a header line, the blank
  line that ends the headers, and a body. The HTML of an error page and of a
  directory listing is abbreviated (\<open>error_message\<close>, \<open>listing\<close>), so a body
  and the value of its \<open>Content-Length\<close> header are shorter than the library's;
  no property below depends on a body's text or length.
\<close>

datatype wire = StatusLine nat | Header string string | Blank | Body string

record handler =
  request_version :: string
  command :: "string option"
  headers_buffer :: "wire list"
  wfile :: "wire list"

definition new_handler :: handler where
  "new_handler = \<lparr>request_version = [], command = None, headers_buffer = [], wfile = []\<rparr>"

text \<open>
  \<open>BaseHTTPRequestHandler.send_response_only\<close>, \<open>send_header\<close> and
  \<open>end_headers\<close> each do nothing for a request whose version is the string
  \<open>HTTP/0.9\<close>: such a response has no status line and no header. (The
  connection's keep-alive flag, which \<open>send_header\<close> also maintains, is left out:
  one request is modelled per connection.)
\<close>

definition send_response_only :: "nat \<Rightarrow> handler \<Rightarrow> handler" where
  "send_response_only code h =
     (if request_version h \<noteq> ''HTTP/0.9''
      then h\<lparr>headers_buffer := headers_buffer h @ [StatusLine code]\<rparr>
      else h)"

definition send_header :: "string \<Rightarrow> string \<Rightarrow> handler \<Rightarrow> handler" where
  "send_header keyword val h =
     (if request_version h \<noteq> ''HTTP/0.9''
      then h\<lparr>headers_buffer := headers_buffer h @ [Header keyword val]\<rparr>
      else h)"

definition flush_headers :: "handler \<Rightarrow> handler" where
  "flush_headers h = h\<lparr>wfile := wfile h @ headers_buffer h, headers_buffer := []\<rparr>"

definition base_end_headers :: "handler \<Rightarrow> handler" where
  "base_end_headers h =
     (if request_version h \<noteq> ''HTTP/0.9''
      then flush_headers (h\<lparr>headers_buffer := headers_buffer h @ [Blank]\<rparr>)
      else h)"

definition send_response :: "env \<Rightarrow> nat \<Rightarrow> handler \<Rightarrow> handler" where
  "send_response e code h =
     send_header ''Date'' (date_time e)
       (send_header ''Server'' (version_string e)
         (send_response_only code h))"

subsection \<open>CORSHTTPRequestHandler\<close>

text \<open>
  The script's own method: three \<open>send_header\<close> calls, then the base class's
  \<open>end_headers\<close>. Every \<open>self.end_headers()\<close> of the base classes dispatches
  to it.
\<close>

definition end_headers :: "handler \<Rightarrow> handler" where
  "end_headers h =
     base_end_headers
       (send_header ''Access-Control-Allow-Headers'' ''Content-Type, Authorization''
         (send_header ''Access-Control-Allow-Methods'' ''GET, POST, OPTIONS''
           (send_header ''Access-Control-Allow-Origin'' ''*'' h)))"

subsection \<open>Strings and numbers\<close>

fun str_nat :: "nat \<Rightarrow> string" where
  "str_nat n =
     (if n < 10 then [char_of (48 + n)]
      else str_nat (n div 10) @ [char_of (48 + n mod 10)])"

declare str_nat.simps [simp del]

fun split_on :: "char \<Rightarrow> string \<Rightarrow> string list" where
  "split_on c [] = [[]]"
| "split_on c (x # xs) =
     (if x = c then [] # split_on c xs
      else (case split_on c xs of
              [] \<Rightarrow> [[x]]
            | y # ys \<Rightarrow> (x # y) # ys))"

definition isdigit :: "string \<Rightarrow> bool" where
  "isdigit s = (s \<noteq> [] \<and> list_all (\<lambda>c. c \<in> set ''0123456789'') s)"

definition int_of_digits :: "string \<Rightarrow> nat" where
  "int_of_digits s = foldl (\<lambda>n c. 10 * n + (of_char c - 48)) 0 s"

text \<open>
  The version check of \<open>parse_request\<close>: \<open>None\<close> where the library raises
  \<open>ValueError\<close>, otherwise the pair \<open>version_number\<close>.
\<close>

definition parse_version :: "string \<Rightarrow> (nat \<times> nat) option" where
  "parse_version version =
     (if take 5 version \<noteq> ''HTTP/'' then None
      else
        (let version_number = split_on CHR ''.'' (drop 5 version) in
         if length version_number \<noteq> 2 then None
         else if list_ex (\<lambda>component. \<not> isdigit component) version_number then None
         else if list_ex (\<lambda>component. length component > 10) version_number then None
         else Some (int_of_digits (version_number ! 0), int_of_digits (version_number ! 1))))"

subsection \<open>Error replies and the request line\<close>

definition error_message :: "nat \<Rightarrow> string \<Rightarrow> string" where
  "error_message code message =
     ''Error code: '' @ str_nat code @ '' Message: '' @ message"

definition send_error :: "env \<Rightarrow> nat \<Rightarrow> string \<Rightarrow> handler \<Rightarrow> handler" where
  "send_error e code message h =
     (let h = send_response e code h;
          h = send_header ''Connection'' ''close'' h;
          has_body = (code \<ge> 200 \<and> code \<notin> {204, 205, 304});
          body = error_message code message;
          h = (if has_body
               then send_header ''Content-Length'' (str_nat (length body))
                      (send_header ''Content-Type'' ''text/html;charset=utf-8'' h)
               else h);
          h = end_headers h
      in if command h \<noteq> Some ''HEAD'' \<and> has_body \<and> body \<noteq> []
         then h\<lparr>wfile := wfile h @ [Body body]\<rparr>
         else h)"

text \<open>
  \<open>parse_request\<close>: the version is \<open>HTTP/0.9\<close> until a request line of three
  words or more has passed the version check, so the replies to a bad version and to
  a version from 2.0 on are sent under \<open>HTTP/0.9\<close>. (\<open>Expect: 100-continue\<close> is
  left out.)
\<close>

definition parse_request :: "env \<Rightarrow> request \<Rightarrow> handler \<Rightarrow> bool \<times> handler" where
  "parse_request e rq h0 =
     (let h = h0\<lparr>command := None, request_version := ''HTTP/0.9''\<rparr>;
          ws = requestline rq
      in if length ws = 0 then (False, h)
         else
           (case (if length ws \<ge> 3 then parse_version (last ws) else Some (0, 9)) of
              None \<Rightarrow> (False, send_error e 400 ''Bad request version'' h)
            | Some (major, minor) \<Rightarrow>
                if length ws \<ge> 3 \<and> major \<ge> 2
                then (False, send_error e 505 ''Invalid HTTP version'' h)
                else
                  (let h = (if length ws \<ge> 3 then h\<lparr>request_version := last ws\<rparr> else h)
                   in if \<not> (2 \<le> length ws \<and> length ws \<le> 3)
                      then (False, send_error e 400 ''Bad request syntax'' h)
                      else if length ws = 2 \<and> ws ! 0 \<noteq> ''GET''
                      then (False, send_error e 400 ''Bad HTTP/0.9 request type'' h)
                      else
                        (let h = h\<lparr>command := Some (ws ! 0)\<rparr>
                         in if bad_headers rq
                            then (False, send_error e 431 ''Line too long'' h)
                            else (True, h)))))"

subsection \<open>SimpleHTTPRequestHandler\<close>

text \<open>
  \<open>posixpath.normpath\<close> on the components of a path: empty components and
  \<open>.\<close> are dropped, and \<open>..\<close> removes the component before it (at the start of
  a path that begins with a slash it is dropped).
\<close>

fun normpath :: "bool \<Rightarrow> string list \<Rightarrow> string list \<Rightarrow> string list" where
  "normpath initial_slashes new_comps [] = new_comps"
| "normpath initial_slashes new_comps (c # comps) =
     (if c = [] \<or> c = ''.'' then normpath initial_slashes new_comps comps
      else if c \<noteq> ''..'' \<or> (\<not> initial_slashes \<and> new_comps = [])
                \<or> (new_comps \<noteq> [] \<and> last new_comps = ''..'')
      then normpath initial_slashes (new_comps @ [c]) comps
      else if new_comps \<noteq> [] then normpath initial_slashes (butlast new_comps) comps
      else normpath initial_slashes new_comps comps)"

text \<open>
  \<open>translate_path\<close>: the normalised path's words, without those that are
  \<open>.\<close> or \<open>..\<close>, joined to the handler's directory.
\<close>

definition translate_path :: "path \<Rightarrow> request \<Rightarrow> path" where
  "translate_path directory rq =
     (let comps = target rq;
          initial_slashes = (2 \<le> length comps \<and> hd comps = []);
          words = normpath initial_slashes [] comps
      in directory @ filter (\<lambda>word. word \<noteq> ''.'' \<and> word \<noteq> ''..'') words)"

definition listing :: "string list \<Rightarrow> string" where
  "listing names = concat (map (\<lambda>n. ''<li>'' @ n @ ''</li>'') names)"

definition list_directory :: "env \<Rightarrow> path \<Rightarrow> handler \<Rightarrow> string option \<times> handler" where
  "list_directory e p h =
     (case listdir e p of
        None \<Rightarrow> (None, send_error e 404 ''No permission to list directory'' h)
      | Some names \<Rightarrow>
          (let body = listing names
           in (Some body,
               end_headers
                 (send_header ''Content-Length'' (str_nat (length body))
                   (send_header ''Content-type'' ''text/html; charset=utf-8''
                     (send_response e 200 h))))))"

text \<open>The file branch of \<open>send_head\<close>, from the trailing-slash check on.\<close>

definition send_file :: "env \<Rightarrow> request \<Rightarrow> path \<Rightarrow> bool \<Rightarrow> handler \<Rightarrow> string option \<times> handler" where
  "send_file e rq p slash h =
     (if slash then (None, send_error e 404 ''File not found'' h)
      else
        (case fs e p of
           Some (File content) \<Rightarrow>
             if cache_hit rq then (None, end_headers (send_response e 304 h))
             else
               (Some content,
                end_headers
                  (send_header ''Last-Modified'' (mtime e p)
                    (send_header ''Content-Length'' (str_nat (length content))
                      (send_header ''Content-type'' (guess_type e p)
                        (send_response e 200 h)))))
         | _ \<Rightarrow> (None, send_error e 404 ''File not found'' h)))"

definition send_head :: "env \<Rightarrow> path \<Rightarrow> request \<Rightarrow> handler \<Rightarrow> string option \<times> handler" where
  "send_head e directory rq h =
     (let p = translate_path directory rq
      in if fs e p = Some Dir then
           if \<not> ends_slash rq
           then (None,
                 end_headers
                   (send_header ''Content-Length'' ''0''
                     (send_header ''Location'' (location rq)
                       (send_response e 301 h))))
           else if (case fs e (p @ [''index.html'']) of Some (File _) \<Rightarrow> True | _ \<Rightarrow> False)
           then send_file e rq (p @ [''index.html'']) False h
           else if (case fs e (p @ [''index.htm'']) of Some (File _) \<Rightarrow> True | _ \<Rightarrow> False)
           then send_file e rq (p @ [''index.htm'']) False h
           else list_directory e p h
         else send_file e rq p (ends_slash rq) h)"

definition do_GET :: "env \<Rightarrow> path \<Rightarrow> request \<Rightarrow> handler \<Rightarrow> handler" where
  "do_GET e directory rq h =
     (case send_head e directory rq h of
        (Some content, h') \<Rightarrow> h'\<lparr>wfile := wfile h' @ [Body content]\<rparr>
      | (None, h') \<Rightarrow> h')"

definition do_HEAD :: "env \<Rightarrow> path \<Rightarrow> request \<Rightarrow> handler \<Rightarrow> handler" where
  "do_HEAD e directory rq h = snd (send_head e directory rq h)"

text \<open>
  \<open>handle_one_request\<close>, for a handler created in the directory \<open>directory\<close>
  (\<open>os.getcwd()\<close> when the connection is accepted). The handler class has the
  methods \<open>do_GET\<close> and \<open>do_HEAD\<close> only. The result is the handler after the
  request; its \<open>wfile\<close> is what was written to the connection.
\<close>

definition handle_one_request :: "env \<Rightarrow> path \<Rightarrow> request \<Rightarrow> handler" where
  "handle_one_request e directory rq =
     (if too_long rq
      then send_error e 414 ''Request-URI Too Long''
             (new_handler\<lparr>request_version := [], command := Some []\<rparr>)
      else
        (case parse_request e rq new_handler of
           (False, h) \<Rightarrow> h
         | (True, h) \<Rightarrow>
             if command h = Some ''GET'' then do_GET e directory rq h
             else if command h = Some ''HEAD'' then do_HEAD e directory rq h
             else send_error e 501 ''Unsupported method'' h))"

subsection \<open>The process\<close>

datatype exc = SystemExit int | KeyboardInterrupt | OSError string

text \<open>The system calls of a run, in the order in which they are made.\<close>

datatype event =
    Chdir path
  | Exists path
  | Print string
  | CreateSocket
  | BindSocket string nat
  | ServeForever
  | CloseSocket

record proc =
  cwd :: path
  clock :: nat
  listening :: "(string \<times> nat) option"
  trace :: "event list"
  sent :: "wire list list"

definition init :: "env \<Rightarrow> proc" where
  "init e = \<lparr>cwd = start_cwd e, clock = 0, listening = None, trace = [], sent = []\<rparr>"

text \<open>
  A computation either never returns (\<open>None\<close>), or raises an exception (\<open>Inl\<close>),
  or returns a value (\<open>Inr\<close>), with the process state it leaves.
\<close>

type_synonym 'a run = "proc \<Rightarrow> ((exc + 'a) \<times> proc) option"

definition ret :: "'a \<Rightarrow> 'a run" where
  "ret a s = Some (Inr a, s)"

definition seq :: "'a run \<Rightarrow> ('a \<Rightarrow> 'b run) \<Rightarrow> 'b run" where
  "seq m f s =
     (case m s of
        None \<Rightarrow> None
      | Some (Inl x, s') \<Rightarrow> Some (Inl x, s')
      | Some (Inr a, s') \<Rightarrow> f a s')"

definition log :: "event \<Rightarrow> proc \<Rightarrow> proc" where
  "log ev s = s\<lparr>trace := trace s @ [ev]\<rparr>"

text \<open>
  Python raises \<open>KeyboardInterrupt\<close> in the main thread when the interrupt signal
  has arrived. The model counts the steps of the run (a library call each, or a
  round of the serve loop), delivers at most one interrupt, and raises it in place
  of the step at which it arrives.
\<close>

definition tick :: "env \<Rightarrow> proc \<Rightarrow> (exc + unit) \<times> proc" where
  "tick e s =
     (if sigint_at e = Some (clock s) then Inl KeyboardInterrupt else Inr (),
      s\<lparr>clock := Suc (clock s)\<rparr>)"

definition step :: "env \<Rightarrow> unit run" where
  "step e s = Some (tick e s)"

definition os_chdir :: "env \<Rightarrow> path \<Rightarrow> unit run" where
  "os_chdir e p =
     seq (step e) (\<lambda>_ s.
       case fs e p of
         Some Dir \<Rightarrow> Some (Inr (), (log (Chdir p) s)\<lparr>cwd := p\<rparr>)
       | Some (File _) \<Rightarrow> Some (Inl (OSError ''ENOTDIR''), log (Chdir p) s)
       | None \<Rightarrow> Some (Inl (OSError ''ENOENT''), log (Chdir p) s))"

definition path_exists :: "env \<Rightarrow> path \<Rightarrow> bool run" where
  "path_exists e p =
     seq (step e) (\<lambda>_ s. Some (Inr (fs e p \<noteq> None), log (Exists p) s))"

definition print :: "env \<Rightarrow> string \<Rightarrow> unit run" where
  "print e line = seq (step e) (\<lambda>_ s. Some (Inr (), log (Print line) s))"

definition sys_exit :: "int \<Rightarrow> 'a run" where
  "sys_exit n s = Some (Inl (SystemExit n), s)"

definition getcwd :: "path run" where
  "getcwd s = Some (Inr (cwd s), s)"

definition str_path :: "path \<Rightarrow> string" where
  "str_path p = (if p = [] then ''/'' else concat (map (\<lambda>c. ''/'' @ c) p))"

text \<open>
  \<open>socketserver.TCPServer(server_address, handler)\<close> creates the socket, binds it
  and listens; when that fails it closes the socket and raises the \<open>OSError\<close>
  again. As a context manager it closes the socket on every way out of the body.
\<close>

definition TCPServer :: "env \<Rightarrow> string \<Rightarrow> nat \<Rightarrow> unit run" where
  "TCPServer e host port =
     seq (step e) (\<lambda>_ s.
       case bind_error e host port of
         None \<Rightarrow>
           Some (Inr (),
             (log (BindSocket host port) (log CreateSocket s))\<lparr>listening := Some (host, port)\<rparr>)
       | Some errno \<Rightarrow>
           Some (Inl (OSError errno),
             log CloseSocket (log (BindSocket host port) (log CreateSocket s))))"

definition server_close :: "proc \<Rightarrow> proc" where
  "server_close s = (log CloseSocket s)\<lparr>listening := None\<rparr>"

definition with_server :: "env \<Rightarrow> string \<Rightarrow> nat \<Rightarrow> 'a run \<Rightarrow> 'a run" where
  "with_server e host port body =
     seq (TCPServer e host port) (\<lambda>_ s.
       case body s of
         None \<Rightarrow> None
       | Some (r, s') \<Rightarrow> Some (r, server_close s'))"

text \<open>
  \<open>BaseServer.serve_forever\<close>: the loop \<open>while not self.__shutdown_request\<close>.
  Nothing in the script calls \<open>shutdown()\<close>, so the flag stays false. A round
  waits for a connection (at most the poll interval) and handles the one that is
  ready; an \<open>Exception\<close> of the handler is caught inside the loop, while
  \<open>KeyboardInterrupt\<close> leaves it.
\<close>

partial_function (option) serve_loop :: "env \<Rightarrow> proc \<Rightarrow> ((exc + unit) \<times> proc) option" where
  "serve_loop e s =
     (case tick e s of
        (Inl x, s') \<Rightarrow> Some (Inl x, s')
      | (Inr _, s') \<Rightarrow>
          (case incoming e (clock s) of
             None \<Rightarrow> serve_loop e s'
           | Some rq \<Rightarrow>
               serve_loop e (s'\<lparr>sent := sent s' @ [wfile (handle_one_request e (cwd s') rq)]\<rparr>)))"

definition serve_forever :: "env \<Rightarrow> unit run" where
  "serve_forever e s = serve_loop e (log ServeForever s)"

definition except_KeyboardInterrupt :: "'a run \<Rightarrow> 'a run \<Rightarrow> 'a run" where
  "except_KeyboardInterrupt body handler s =
     (case body s of
        None \<Rightarrow> None
      | Some (Inl KeyboardInterrupt, s') \<Rightarrow> handler s'
      | Some (r, s') \<Rightarrow> Some (r, s'))"

subsection \<open>main\<close>

definition msg_no_dist :: string where
  "msg_no_dist = [CHR 0xE2, CHR 0x9D, CHR 0x8C] @ '' Error: 'dist' directory not found!''"

definition msg_run_build :: string where
  "msg_run_build = ''Please run 'npm run build' first to create the production build.''"

definition msg_serving :: string where
  "msg_serving =
     [CHR 0xF0, CHR 0x9F, CHR 0x9A, CHR 0x80] @ '' Serving Daydream app at http://''
       @ HOST @ '':'' @ str_nat PORT"

definition msg_from :: "path \<Rightarrow> string" where
  "msg_from d = [CHR 0xF0, CHR 0x9F, CHR 0x93, CHR 0x81] @ '' Serving from: '' @ str_path d"

definition msg_avoids :: string where
  "msg_avoids =
     [CHR 0xF0, CHR 0x9F, CHR 0x8E, CHR 0xAC] @ '' This avoids CORS issues with Livepeer TV player''"

definition msg_press :: string where
  "msg_press =
     [CHR 0xE2, CHR 0x9A, CHR 0xA0, CHR 0xEF, CHR 0xB8, CHR 0x8F]
       @ ''  Press Ctrl+C to stop the server''"

definition msg_stopped :: string where
  "msg_stopped = [CHR 0x0A, CHR 0xF0, CHR 0x9F, CHR 0x9B, CHR 0x91] @ '' Server stopped''"

definition main :: "env \<Rightarrow> unit run" where
  "main e =
     seq (os_chdir e (project_dir e)) (\<lambda>_.
     seq (path_exists e (project_dir e @ [''dist''])) (\<lambda>found.
     seq (if \<not> found
          then seq (print e msg_no_dist) (\<lambda>_.
               seq (print e msg_run_build) (\<lambda>_.
               sys_exit 1))
          else ret ()) (\<lambda>_.
     seq (os_chdir e (project_dir e @ [''dist''])) (\<lambda>_.
     with_server e HOST PORT
       (seq (print e msg_serving) (\<lambda>_.
        seq getcwd (\<lambda>d.
        seq (print e (msg_from d)) (\<lambda>_.
        seq (print e msg_avoids) (\<lambda>_.
        seq (print e msg_press) (\<lambda>_.
        seq (print e (replicate 50 CHR ''-'')) (\<lambda>_.
        except_KeyboardInterrupt (serve_forever e)
          (seq (print e msg_stopped) (\<lambda>_.
           sys_exit 0)))))))))))))"

text \<open>A run of the script: \<open>main\<close> from the initial state of the process.\<close>

definition run :: "env \<Rightarrow> ((exc + unit) \<times> proc) option" where
  "run e = main e (init e)"

definition printed :: "proc \<Rightarrow> string list" where
  "printed s = concat (map (\<lambda>ev. case ev of Print line \<Rightarrow> [line] | _ \<Rightarrow> []) (trace s))"

subsection \<open>Notions used in the statements\<close>

text \<open>No interrupt arrives before step \<open>n\<close>.\<close>

definition quiet_until :: "env \<Rightarrow> nat \<Rightarrow> bool" where
  "quiet_until e n = (case sigint_at e of None \<Rightarrow> True | Some k \<Rightarrow> n \<le> k)"

text \<open>
  The steps of a run are numbered from 0: changing into the script's directory is
  step 0, the existence check step 1, changing into \<open>dist\<close> step 2, the server's
  constructor step 3, the five status lines steps 4 to 8, and the rounds of the
  serve loop are the steps from 9 on. On the path of the missing directory the two
  messages are steps 2 and 3.
\<close>

text \<open>The system calls up to the entry into the serve loop, when nothing fails.\<close>

definition startup_trace :: "env \<Rightarrow> event list" where
  "startup_trace e =
     [Chdir (project_dir e),
      Exists (project_dir e @ [''dist'']),
      Chdir (project_dir e @ [''dist'']),
      CreateSocket,
      BindSocket HOST PORT,
      Print msg_serving,
      Print (msg_from (project_dir e @ [''dist''])),
      Print msg_avoids,
      Print msg_press,
      Print (replicate 50 CHR ''-''),
      ServeForever]"

text \<open>The responses to the connections that are ready at the steps \<open>ts\<close>, served from \<open>d\<close>.\<close>

definition responses :: "env \<Rightarrow> path \<Rightarrow> nat list \<Rightarrow> wire list list" where
  "responses e d ts =
     concat (map (\<lambda>t. case incoming e t of
                         None \<Rightarrow> []
                       | Some rq \<Rightarrow> [wfile (handle_one_request e d rq)]) ts)"

definition trace_of :: "((exc + unit) \<times> proc) option \<Rightarrow> event list" where
  "trace_of r = (case r of None \<Rightarrow> [] | Some (_, s) \<Rightarrow> trace s)"

definition cors_headers :: "wire list" where
  "cors_headers =
     [Header ''Access-Control-Allow-Origin'' ''*'',
      Header ''Access-Control-Allow-Methods'' ''GET, POST, OPTIONS'',
      Header ''Access-Control-Allow-Headers'' ''Content-Type, Authorization'']"



text \<open>
  The requests that the handler answers under a version other than \<open>HTTP/0.9\<close>:
  an over-long request line, or one of at least three words whose last word is a
  well-formed version below 2.0 and not the string \<open>HTTP/0.9\<close> itself.
\<close>

definition has_header_block :: "request \<Rightarrow> bool" where
  "has_header_block rq =
     (too_long rq
      \<or> (3 \<le> length (requestline rq)
         \<and> last (requestline rq) \<noteq> ''HTTP/0.9''
         \<and> (case parse_version (last (requestline rq)) of
               None \<Rightarrow> False
             | Some (major, minor) \<Rightarrow> major < 2)))"



subsection \<open>Sample environments\<close>

definition sample_fs :: "path \<Rightarrow> node option" where
  "sample_fs p =
     (if p = [''app''] \<or> p = [''app'', ''dist''] then Some Dir
      else if p = [''app'', ''dist'', ''index.html''] then Some (File ''<html>'')
      else None)"

definition full_request :: request where
  "full_request =
     \<lparr>too_long = False, requestline = [''GET'', ''/'', ''HTTP/1.1''], target = [[], []],
      ends_slash = True, location = ''//'', bad_headers = False, cache_hit = False\<rparr>"


definition simple_request :: request where
  "simple_request =
     \<lparr>too_long = False, requestline = [''GET'', ''/''], target = [[], []],
      ends_slash = True, location = ''//'', bad_headers = False, cache_hit = False\<rparr>"

text \<open>
  The script in \<open>/app\<close> with a built \<open>/app/dist\<close>, a free port, two
  connections at steps 10 and 11, and the interrupt at step 12.
\<close>

definition sample_env :: env where
  "sample_env =
     \<lparr>argv = [], start_cwd = [''home''], project_dir = [''app''],
      fs = sample_fs, listdir = (\<lambda>p. None), guess_type = (\<lambda>p. ''text/html''),
      mtime = (\<lambda>p. ''Thu, 01 Jan 2026 00:00:00 GMT''),
      date_time = ''Tue, 03 Nov 2026 00:00:00 GMT'',
      version_string = ''SimpleHTTP/0.6 Python/3.11.10'',
      bind_error = (\<lambda>host port. None), sigint_at = Some 12,
      incoming = (\<lambda>t. if t = 10 then Some full_request
                       else if t = 11 then Some simple_request else None)\<rparr>"

text \<open>The same without \<open>/app/dist\<close>, and with no interrupt.\<close>

definition unbuilt_env :: env where
  "unbuilt_env =
     sample_env\<lparr>fs := (\<lambda>p. if p = [''app''] then Some Dir else None), sigint_at := None\<rparr>"

text \<open>The same as \<open>sample_env\<close> with the port taken.\<close>

definition busy_env :: env where
  "busy_env = sample_env\<lparr>bind_error := (\<lambda>host port. Some ''EADDRINUSE'')\<rparr>"

text \<open>The same as \<open>sample_env\<close> with the interrupt during the second status line.\<close>

definition early_env :: env where
  "early_env = sample_env\<lparr>sigint_at := Some 5\<rparr>"


text \<open>The script in \<open>/app\<close> beside a regular file \<open>/app/dist\<close>, and no interrupt.\<close>

definition filed_env :: env where
  "filed_env =
     sample_env\<lparr>fs := (\<lambda>p. if p = [''app''] then Some Dir
                            else if p = [''app'', ''dist''] then Some (File ''not a directory'')
                            else None),
                 sigint_at := None\<rparr>"

section \<open>The serve loop\<close>

lemma serve_loop_interrupt:
  assumes "sigint_at e = Some k" and "clock s \<le> k"
  shows "serve_loop e s =
     Some (Inl KeyboardInterrupt,
           s\<lparr>clock := Suc k, sent := sent s @ responses e (cwd s) [clock s..<k]\<rparr>)"
  using assms
proof (induction "k - clock s" arbitrary: s)
  case 0
  then have "clock s = k" by simp
  with 0 show ?case
    by (subst serve_loop.simps) (simp add: tick_def responses_def)
next
  case (Suc n)
  then have lt: "clock s < k" by simp
  let ?s' = "s\<lparr>clock := Suc (clock s)\<rparr>"
  show ?case
  proof (cases "incoming e (clock s)")
    case None
    have "serve_loop e s = serve_loop e ?s'"
      using lt Suc.prems None by (subst serve_loop.simps) (simp add: tick_def)
    also have "\<dots> = Some (Inl KeyboardInterrupt,
        ?s'\<lparr>clock := Suc k, sent := sent ?s' @ responses e (cwd ?s') [clock ?s'..<k]\<rparr>)"
      using Suc.hyps(2) Suc.prems lt by (intro Suc.hyps(1)) simp_all
    finally show ?thesis
      using lt None by (simp add: responses_def upt_conv_Cons)
  next
    case (Some rq)
    let ?t = "?s'\<lparr>sent := sent ?s' @ [wfile (handle_one_request e (cwd ?s') rq)]\<rparr>"
    have "serve_loop e s = serve_loop e ?t"
      using lt Suc.prems Some by (subst serve_loop.simps) (simp add: tick_def)
    also have "\<dots> = Some (Inl KeyboardInterrupt,
        ?t\<lparr>clock := Suc k, sent := sent ?t @ responses e (cwd ?t) [clock ?t..<k]\<rparr>)"
      using Suc.hyps(2) Suc.prems lt by (intro Suc.hyps(1)) simp_all
    finally show ?thesis
      using lt Some by (simp add: responses_def upt_conv_Cons)
  qed
qed

lemma serve_loop_None:
  assumes "\<forall>k. sigint_at e = Some k \<longrightarrow> k < clock s"
  shows "serve_loop e s = None"
proof -
  have "\<forall>(e::env) s. (\<forall>k. sigint_at e = Some k \<longrightarrow> k < clock s) \<longrightarrow> serve_loop e s = None"
  proof (induction rule: serve_loop.fixp_induct)
    case 1
    show ?case by (rule ccpo.admissibleI) (auto simp: fun_lub_def flat_lub_def)
  next
    case 2
    show ?case by simp
  next
    case (3 f)
    show ?case
    proof (intro allI impI)
      fix e :: env and s :: proc
      assume past: "\<forall>k. sigint_at e = Some k \<longrightarrow> k < clock s"
      then have now: "sigint_at e \<noteq> Some (clock s)" by auto
      have later: "\<forall>k. sigint_at e = Some k \<longrightarrow> k < clock (t\<lparr>clock := Suc (clock s)\<rparr>)" for t :: proc
        using past by (simp add: less_Suc_eq)
      show "(case tick e s of
               (Inl x, s') \<Rightarrow> Some (Inl x, s')
             | (Inr x, s') \<Rightarrow>
                 (case incoming e (clock s) of
                    None \<Rightarrow> f e s'
                  | Some rq \<Rightarrow>
                      f e (s'\<lparr>sent := sent s' @ [wfile (handle_one_request e (cwd s') rq)]\<rparr>))) = None"
        using now 3 later past by (simp add: tick_def less_Suc_eq split: option.split)
    qed
  qed
  with assms show ?thesis by blast
qed

lemma serve_loop_Some:
  assumes "serve_loop e s = Some (r, s')"
  shows "r = Inl KeyboardInterrupt \<and> trace s' = trace s \<and> cwd s' = cwd s
         \<and> listening s' = listening s \<and> sigint_at e = Some (clock s' - 1) \<and> clock s < clock s'"
proof (cases "sigint_at e")
  case None
  then have "serve_loop e s = None" by (intro serve_loop_None) simp
  with assms show ?thesis by simp
next
  case (Some k)
  show ?thesis
  proof (cases "clock s \<le> k")
    case True
    from serve_loop_interrupt [OF Some True] assms show ?thesis
      using Some True by auto
  next
    case False
    with Some have "serve_loop e s = None" by (intro serve_loop_None) simp
    with assms show ?thesis by simp
  qed
qed

section \<open>Whole runs\<close>

lemmas prims =
  seq_def ret_def step_def tick_def log_def os_chdir_def path_exists_def print_def
  sys_exit_def getcwd_def TCPServer_def server_close_def with_server_def
  serve_forever_def except_KeyboardInterrupt_def init_def

lemma run_dist_missing:
  assumes "fs e (project_dir e) = Some Dir"
    and "fs e (project_dir e @ [''dist'']) = None"
    and q: "quiet_until e 4"
  shows "run e = Some (Inl (SystemExit 1),
           \<lparr>cwd = project_dir e, clock = 4, listening = None,
            trace = [Chdir (project_dir e), Exists (project_dir e @ [''dist'']),
                     Print msg_no_dist, Print msg_run_build],
            sent = []\<rparr>)"
proof -
  have "sigint_at e \<noteq> Some 0" "sigint_at e \<noteq> Some (Suc 0)" "sigint_at e \<noteq> Some 2" "sigint_at e \<noteq> Some 3"
    using q by (auto simp: quiet_until_def)
  then show ?thesis
    using assms(1,2) by (simp add: run_def main_def prims numeral_eq_Suc)
qed

lemma run_serving:
  assumes "fs e (project_dir e) = Some Dir"
    and "fs e (project_dir e @ [''dist'']) = Some Dir"
    and "bind_error e HOST PORT = None"
    and q: "quiet_until e 9"
  shows "run e =
    (case serve_loop e \<lparr>cwd = project_dir e @ [''dist''], clock = 9,
            listening = Some (HOST, PORT), trace = startup_trace e, sent = []\<rparr> of
       None \<Rightarrow> None
     | Some (Inl KeyboardInterrupt, s') \<Rightarrow>
         (case tick e s' of
            (Inl x, s'') \<Rightarrow> Some (Inl x, server_close s'')
          | (Inr _, s'') \<Rightarrow> Some (Inl (SystemExit 0), server_close (log (Print msg_stopped) s'')))
     | Some (r, s') \<Rightarrow> Some (r, server_close s'))"
proof -
  have "sigint_at e \<noteq> Some 0" "sigint_at e \<noteq> Some (Suc 0)" "sigint_at e \<noteq> Some 2" "sigint_at e \<noteq> Some 3"
    "sigint_at e \<noteq> Some 4" "sigint_at e \<noteq> Some 5" "sigint_at e \<noteq> Some 6" "sigint_at e \<noteq> Some 7"
    "sigint_at e \<noteq> Some 8"
    using q by (auto simp: quiet_until_def)
  then show ?thesis
    using assms(1,2,3)
    by (simp add: run_def main_def prims startup_trace_def numeral_eq_Suc
          split: option.split sum.split exc.split prod.split)
qed

lemma run_interrupted_serving:
  assumes "fs e (project_dir e) = Some Dir"
    and "fs e (project_dir e @ [''dist'']) = Some Dir"
    and "bind_error e HOST PORT = None"
    and k: "sigint_at e = Some k" "9 \<le> k"
  shows "run e = Some (Inl (SystemExit 0),
           \<lparr>cwd = project_dir e @ [''dist''], clock = k + 2, listening = None,
            trace = startup_trace e @ [Print msg_stopped, CloseSocket],
            sent = responses e (project_dir e @ [''dist'']) [9..<k]\<rparr>)"
proof -
  have q: "quiet_until e 9" using k by (simp add: quiet_until_def)
  show ?thesis
    using k
    by (simp add: run_serving [OF assms(1-3) q] serve_loop_interrupt [OF k(1)]
          tick_def server_close_def log_def)
qed


lemma msg_stopped_neq:
  "msg_stopped \<noteq> msg_serving" "msg_stopped \<noteq> msg_from d" "msg_stopped \<noteq> msg_avoids"
  "msg_stopped \<noteq> msg_press" "msg_stopped \<noteq> replicate 50 CHR ''-''"
  "msg_stopped \<noteq> msg_no_dist" "msg_stopped \<noteq> msg_run_build"
  by (simp_all add: msg_stopped_def msg_serving_def msg_from_def msg_avoids_def msg_press_def
        msg_no_dist_def msg_run_build_def numeral_eq_Suc)

lemma run_interrupted_startup:
  assumes "fs e (project_dir e) = Some Dir"
    and "fs e (project_dir e @ [''dist'']) = Some Dir"
    and "bind_error e HOST PORT = None"
    and k: "sigint_at e = Some k" "k < 9"
  shows "\<exists>s. run e = Some (Inl KeyboardInterrupt, s) \<and> msg_stopped \<notin> set (printed s)
           \<and> ServeForever \<notin> set (trace s)"
proof -
  have "k = 0 \<or> k = 1 \<or> k = 2 \<or> k = 3 \<or> k = 4 \<or> k = 5 \<or> k = 6 \<or> k = 7 \<or> k = 8"
    using k(2) by arith
  then show ?thesis
    using assms(1-4)
    apply (elim disjE)
    by (simp_all add: run_def main_def prims printed_def msg_stopped_neq numeral_eq_Suc)
qed

text \<open>
  \<open>Path.exists\<close> is also true of a regular file: then the check passes and
  \<open>os.chdir\<close> raises.
\<close>

lemma run_dist_is_file:
  assumes "fs e (project_dir e) = Some Dir"
    and "fs e (project_dir e @ [''dist'']) = Some (File content)"
    and q: "quiet_until e 3"
  shows "run e = Some (Inl (OSError ''ENOTDIR''),
           \<lparr>cwd = project_dir e, clock = 3, listening = None,
            trace = [Chdir (project_dir e), Exists (project_dir e @ [''dist'']),
                     Chdir (project_dir e @ [''dist''])],
            sent = []\<rparr>)"
proof -
  have "sigint_at e \<noteq> Some 0" "sigint_at e \<noteq> Some (Suc 0)" "sigint_at e \<noteq> Some 2"
    using q by (auto simp: quiet_until_def)
  then show ?thesis
    using assms(1,2) by (simp add: run_def main_def prims numeral_eq_Suc)
qed

lemma run_bind_fails:
  assumes "fs e (project_dir e) = Some Dir"
    and "fs e (project_dir e @ [''dist'']) = Some Dir"
    and "bind_error e HOST PORT = Some errno"
    and q: "quiet_until e 4"
  shows "run e = Some (Inl (OSError errno),
           \<lparr>cwd = project_dir e @ [''dist''], clock = 4, listening = None,
            trace = [Chdir (project_dir e), Exists (project_dir e @ [''dist'']),
                     Chdir (project_dir e @ [''dist'']), CreateSocket, BindSocket HOST PORT,
                     CloseSocket],
            sent = []\<rparr>)"
proof -
  have "sigint_at e \<noteq> Some 0" "sigint_at e \<noteq> Some (Suc 0)" "sigint_at e \<noteq> Some 2" "sigint_at e \<noteq> Some 3"
    using q by (auto simp: quiet_until_def)
  then show ?thesis
    using assms(1-3) by (simp add: run_def main_def prims numeral_eq_Suc)
qed


lemma run_bind_fails_any:
  assumes "bind_error e HOST PORT = Some errno"
  shows "\<exists>r s. run e = Some (r, s) \<and> r \<noteq> Inl (SystemExit 0) \<and> r \<noteq> Inr ()
           \<and> msg_stopped \<notin> set (printed s) \<and> ServeForever \<notin> set (trace s)"
  using assms
  by (auto simp add: run_def main_def prims printed_def msg_stopped_neq numeral_eq_Suc
        split: option.split node.split)

lemma run_invariants_aux:
  "case run e of
     None \<Rightarrow> True
   | Some (r, s) \<Rightarrow>
       (\<forall>h p. BindSocket h p \<in> set (trace s) \<longrightarrow> h = HOST \<and> p = PORT)
       \<and> (ServeForever \<in> set (trace s) \<longrightarrow> cwd s = project_dir e @ [''dist''])"
proof (cases "sigint_at e")
  case None
  then have "serve_loop e t = None" for t by (simp add: serve_loop_None)
  with None show ?thesis
    by (cases "fs e (project_dir e)"; cases "fs e (project_dir e @ [''dist''])";
        cases "bind_error e HOST PORT";
        simp add: run_def main_def prims split: node.split)
next
  case (Some k)
  consider "k < 9" | "9 \<le> k" by arith
  then show ?thesis
  proof cases
    case 1
    then have "k = 0 \<or> k = 1 \<or> k = 2 \<or> k = 3 \<or> k = 4 \<or> k = 5 \<or> k = 6 \<or> k = 7 \<or> k = 8"
      by arith
    then show ?thesis
      using Some
      by (elim disjE;
          cases "fs e (project_dir e)"; cases "fs e (project_dir e @ [''dist''])";
          cases "bind_error e HOST PORT";
          simp add: run_def main_def prims numeral_eq_Suc split: node.split)
  next
    case 2
    have "sigint_at e \<noteq> Some 0" "sigint_at e \<noteq> Some (Suc 0)" "sigint_at e \<noteq> Some 2"
      "sigint_at e \<noteq> Some 3" "sigint_at e \<noteq> Some 4" "sigint_at e \<noteq> Some 5"
      "sigint_at e \<noteq> Some 6" "sigint_at e \<noteq> Some 7" "sigint_at e \<noteq> Some 8"
      using Some 2 by auto
    moreover have "serve_loop e t =
        Some (Inl KeyboardInterrupt,
              t\<lparr>clock := Suc k, sent := sent t @ responses e (cwd t) [clock t..<k]\<rparr>)"
      if "clock t = 9" for t
      using serve_loop_interrupt [OF Some, of t] 2 that by simp
    ultimately show ?thesis
      using 2
      by (cases "fs e (project_dir e)"; cases "fs e (project_dir e @ [''dist''])";
          cases "bind_error e HOST PORT";
          simp add: run_def main_def prims numeral_eq_Suc split: node.split)
  qed
qed

lemma run_invariants:
  assumes "run e = Some (r, s)"
  shows "(\<forall>h p. BindSocket h p \<in> set (trace s) \<longrightarrow> h = HOST \<and> p = PORT)
         \<and> (ServeForever \<in> set (trace s) \<longrightarrow> cwd s = project_dir e @ [''dist''])"
  using run_invariants_aux [of e] assms by simp

lemma send_response_argv [simp]: "send_response (e\<lparr>argv := a\<rparr>) = send_response e"
  by (simp add: send_response_def fun_eq_iff)

lemma send_error_argv [simp]: "send_error (e\<lparr>argv := a\<rparr>) = send_error e"
  by (simp add: send_error_def fun_eq_iff)

lemma parse_request_argv [simp]: "parse_request (e\<lparr>argv := a\<rparr>) = parse_request e"
  by (simp add: parse_request_def fun_eq_iff Let_def split: option.split prod.split)

lemma list_directory_argv [simp]: "list_directory (e\<lparr>argv := a\<rparr>) = list_directory e"
  by (simp add: list_directory_def fun_eq_iff Let_def split: option.split)

lemma send_file_argv [simp]: "send_file (e\<lparr>argv := a\<rparr>) = send_file e"
  by (simp add: send_file_def fun_eq_iff split: option.split node.split)

lemma send_head_argv [simp]: "send_head (e\<lparr>argv := a\<rparr>) = send_head e"
  by (simp add: send_head_def fun_eq_iff Let_def)

lemma do_GET_argv [simp]: "do_GET (e\<lparr>argv := a\<rparr>) = do_GET e"
  by (simp add: do_GET_def fun_eq_iff)

lemma do_HEAD_argv [simp]: "do_HEAD (e\<lparr>argv := a\<rparr>) = do_HEAD e"
  by (simp add: do_HEAD_def fun_eq_iff)

lemma handle_one_request_argv [simp]:
  "handle_one_request (e\<lparr>argv := a\<rparr>) = handle_one_request e"
  by (simp add: handle_one_request_def fun_eq_iff cong: if_cong prod.case_cong bool.case_cong)

lemma responses_argv [simp]: "responses (e\<lparr>argv := a\<rparr>) = responses e"
  by (simp add: responses_def fun_eq_iff cong: option.case_cong)

lemma serve_loop_argv: "serve_loop (e\<lparr>argv := a\<rparr>) s = serve_loop e s"
proof (cases "sigint_at e")
  case None
  then show ?thesis by (simp add: serve_loop_None)
next
  case (Some k)
  show ?thesis
  proof (cases "clock s \<le> k")
    case True
    with Some show ?thesis by (simp add: serve_loop_interrupt)
  next
    case False
    with Some show ?thesis by (simp add: serve_loop_None)
  qed
qed

lemma step_argv [simp]: "step (e\<lparr>argv := a\<rparr>) = step e"
  by (simp add: step_def tick_def fun_eq_iff)

lemma os_chdir_argv [simp]: "os_chdir (e\<lparr>argv := a\<rparr>) = os_chdir e"
  by (simp add: os_chdir_def fun_eq_iff)

lemma path_exists_argv [simp]: "path_exists (e\<lparr>argv := a\<rparr>) = path_exists e"
  by (simp add: path_exists_def fun_eq_iff)

lemma print_argv [simp]: "print (e\<lparr>argv := a\<rparr>) = print e"
  by (simp add: print_def fun_eq_iff)

lemma TCPServer_argv [simp]: "TCPServer (e\<lparr>argv := a\<rparr>) = TCPServer e"
  by (simp add: TCPServer_def fun_eq_iff)

lemma with_server_argv [simp]: "with_server (e\<lparr>argv := a\<rparr>) = with_server e"
  by (simp add: with_server_def fun_eq_iff)

lemma serve_forever_argv [simp]: "serve_forever (e\<lparr>argv := a\<rparr>) = serve_forever e"
  by (simp add: serve_forever_def serve_loop_argv fun_eq_iff)

lemma run_argv: "run (e\<lparr>argv := a\<rparr>) = run e"
  by (simp add: run_def main_def init_def cong: if_cong)

section \<open>The handler\<close>




lemma end_headers_versioned:
  "request_version h \<noteq> ''HTTP/0.9'' \<Longrightarrow>
   end_headers h = h\<lparr>headers_buffer := [], wfile := wfile h @ headers_buffer h @ cors_headers @ [Blank]\<rparr>"
  by (simp add: end_headers_def base_end_headers_def flush_headers_def send_header_def cors_headers_def)

lemma send_header_versioned:
  "request_version h \<noteq> ''HTTP/0.9'' \<Longrightarrow>
   send_header k v h = h\<lparr>headers_buffer := headers_buffer h @ [Header k v]\<rparr>"
  by (simp add: send_header_def)

lemma send_response_versioned:
  "request_version h \<noteq> ''HTTP/0.9'' \<Longrightarrow>
   send_response e code h =
     h\<lparr>headers_buffer := headers_buffer h @
          [StatusLine code, Header ''Server'' (version_string e), Header ''Date'' (date_time e)]\<rparr>"
  by (simp add: send_response_def send_response_only_def send_header_def)

lemmas versioned = end_headers_versioned send_header_versioned send_response_versioned








text \<open>
  Path resolution: a \<open>GET\<close> for a path of plain names below the handler's
  directory is answered with the bytes of the file of that name below it.
\<close>

lemma normpath_plain:
  "list_all (\<lambda>w. w \<noteq> [] \<and> w \<noteq> ''.'' \<and> w \<noteq> ''..'') ws \<Longrightarrow> normpath b acc ws = acc @ ws"
  by (induction ws arbitrary: acc) simp_all

lemma translate_path_plain:
  assumes "target rq = [] # ws" "ws \<noteq> []"
    and "list_all (\<lambda>w. w \<noteq> [] \<and> w \<noteq> ''.'' \<and> w \<noteq> ''..'') ws"
  shows "translate_path d rq = d @ ws"
proof -
  have "filter (\<lambda>word. word \<noteq> ''.'' \<and> word \<noteq> ''..'') ws = ws"
    using assms(3) by (induction ws) simp_all
  moreover have "2 \<le> length ([] # ws)" using assms(2) by (cases ws) simp_all
  ultimately show ?thesis
    using assms by (simp add: translate_path_def Let_def normpath_plain)
qed

lemma GET_file_below_directory:
  assumes "requestline rq = [''GET'', url, version]"
    and "has_header_block rq" "\<not> too_long rq" "\<not> bad_headers rq" "\<not> cache_hit rq"
    and "\<not> ends_slash rq"
    and "target rq = [] # ws" "ws \<noteq> []"
    and "list_all (\<lambda>w. w \<noteq> [] \<and> w \<noteq> ''.'' \<and> w \<noteq> ''..'') ws"
    and "fs e (d @ ws) = Some (File content)"
  shows "wfile (handle_one_request e d rq) =
           [StatusLine 200,
            Header ''Server'' (version_string e),
            Header ''Date'' (date_time e),
            Header ''Content-type'' (guess_type e (d @ ws)),
            Header ''Content-Length'' (str_nat (length content)),
            Header ''Last-Modified'' (mtime e (d @ ws))]
           @ cors_headers @ [Blank, Body content]"
proof -
  from assms(1,2,3) obtain major minor where
    nine: "version \<noteq> ''HTTP/0.9''"
    and pv: "parse_version version = Some (major, minor)" and m: "major < 2"
    by (auto simp: has_header_block_def split: option.splits)
  have tp: "translate_path d rq = d @ ws"
    using assms(7-9) by (rule translate_path_plain)
  show ?thesis
    using assms(1,3-6,10) nine pv m tp
    by (simp add: handle_one_request_def parse_request_def Let_def new_handler_def do_GET_def
          send_head_def send_file_def versioned cors_headers_def)
qed

section \<open>The sample environments\<close>

lemma char_of_digits:
  "char_of (48::nat) = CHR ''0''" "char_of (49::nat) = CHR ''1''" "char_of (50::nat) = CHR ''2''"
  "char_of (51::nat) = CHR ''3''" "char_of (52::nat) = CHR ''4''" "char_of (53::nat) = CHR ''5''"
  "char_of (54::nat) = CHR ''6''" "char_of (55::nat) = CHR ''7''" "char_of (56::nat) = CHR ''8''"
  "char_of (57::nat) = CHR ''9''"
  by (simp_all add: char_of_def bit_iff_odd)

lemma sample_env_simps:
  "project_dir sample_env = [''app'']"
  "fs sample_env = sample_fs"
  "bind_error sample_env host port = None"
  "sigint_at sample_env = Some 12"
  "start_cwd sample_env = [''home'']"
  by (simp_all add: sample_env_def)

lemma sample_fs_simps:
  "sample_fs [''app''] = Some Dir"
  "sample_fs [''app'', ''dist''] = Some Dir"
  "sample_fs [''app'', ''dist'', ''index.html''] = Some (File ''<html>'')"
  by (simp_all add: sample_fs_def)

lemma unbuilt_env_simps:
  "project_dir unbuilt_env = [''app'']"
  "fs unbuilt_env [''app''] = Some Dir"
  "fs unbuilt_env [''app'', ''dist''] = None"
  "sigint_at unbuilt_env = None"
  by (simp_all add: unbuilt_env_def sample_env_def)

lemma busy_env_simps:
  "project_dir busy_env = [''app'']"
  "fs busy_env = sample_fs"
  "bind_error busy_env host port = Some ''EADDRINUSE''"
  "sigint_at busy_env = Some 12"
  by (simp_all add: busy_env_def sample_env_def)

lemma early_env_simps:
  "project_dir early_env = [''app'']"
  "fs early_env = sample_fs"
  "bind_error early_env host port = None"
  "sigint_at early_env = Some 5"
  by (simp_all add: early_env_def sample_env_def)


section \<open>The claims\<close>






text \<open>
  C3. With \<open>dist\<close> in place and the port free, an interrupt that arrives while the
  serve loop runs (at step 9 or later) is caught: the program prints the shutdown
  message after the five status lines and ends by \<open>sys.exit(0)\<close>, the socket
  closed.
\<close>

theorem interrupt_while_serving_exits_0:
  assumes "fs e (project_dir e) = Some Dir"
    and "fs e (project_dir e @ [''dist'']) = Some Dir"
    and "bind_error e HOST PORT = None"
    and "sigint_at e = Some k"
    and "9 \<le> k"
  shows "\<exists>s. run e = Some (Inl (SystemExit 0), s)
           \<and> printed s =
               [msg_serving, msg_from (project_dir e @ [''dist'']), msg_avoids, msg_press,
                replicate 50 CHR ''-'', msg_stopped]
           \<and> listening s = None"
  by (simp add: run_interrupted_serving [OF assms] printed_def startup_trace_def)

theorem interrupt_while_serving_exits_0_witness:
  "fs sample_env (project_dir sample_env) = Some Dir
   \<and> fs sample_env (project_dir sample_env @ [''dist'']) = Some Dir
   \<and> bind_error sample_env HOST PORT = None
   \<and> sigint_at sample_env = Some 12
   \<and> (9::nat) \<le> 12
   \<and> (\<exists>s. run sample_env = Some (Inl (SystemExit 0), s)
          \<and> last (printed s) = msg_stopped
          \<and> listening s = None)"
  using interrupt_while_serving_exits_0 [of sample_env 12]
  by (auto simp add: sample_env_simps sample_fs_simps)

text \<open>
  C4. The configuration is fixed in the source: the port is 8000 and the host
  \<open>localhost\<close>; the command line is never read, so a run does not depend on it;
  whenever a run binds a socket, it binds \<open>localhost\<close>, port 8000, and whenever a
  run has entered the serve loop, its working directory (the directory served) is
  \<open>dist\<close> below the script's directory.
\<close>

theorem fixed_configuration:
  "PORT = 8000
   \<and> HOST = ''localhost''
   \<and> run (e\<lparr>argv := a\<rparr>) = run e
   \<and> (\<forall>r s. run e = Some (r, s) \<longrightarrow>
         (\<forall>h p. BindSocket h p \<in> set (trace s) \<longrightarrow> h = ''localhost'' \<and> p = 8000)
         \<and> (ServeForever \<in> set (trace s) \<longrightarrow> cwd s = project_dir e @ [''dist'']))"
proof -
  have "\<forall>r s. run e = Some (r, s) \<longrightarrow>
         (\<forall>h p. BindSocket h p \<in> set (trace s) \<longrightarrow> h = ''localhost'' \<and> p = 8000)
         \<and> (ServeForever \<in> set (trace s) \<longrightarrow> cwd s = project_dir e @ [''dist''])"
    using run_invariants [of e] by (simp add: HOST_def PORT_def)
  then show ?thesis
    by (simp add: run_argv PORT_def HOST_def)
qed

theorem fixed_configuration_witness:
  "run (sample_env\<lparr>argv := [''--port'', ''9000'']\<rparr>) = run sample_env
   \<and> (\<exists>r s. run sample_env = Some (r, s)
          \<and> BindSocket ''localhost'' 8000 \<in> set (trace s)
          \<and> ServeForever \<in> set (trace s)
          \<and> cwd s = [''app'', ''dist''])"
  using fixed_configuration [where e = sample_env and a = "[''--port'', ''9000'']"]
    run_interrupted_serving [of sample_env 12]
  by (simp add: sample_env_simps sample_fs_simps startup_trace_def HOST_def PORT_def)

text \<open>
  C5 (as stated, refuted). The claim ends: the precondition check happens before
  any directory change. The first system call of a run is \<open>os.chdir(project_dir)\<close>;
  the existence check is the second.
\<close>

theorem chdir_precedes_existence_check:
  "take 3 (trace_of (run sample_env)) =
     [Chdir [''app''], Exists [''app'', ''dist''], Chdir [''app'', ''dist'']]"
  using run_interrupted_serving [of sample_env 12]
  by (simp add: sample_env_simps sample_fs_simps startup_trace_def trace_of_def)

text \<open>
  C5 (amended). At startup the program performs its steps in the order: the change
  of the working directory to the script's own directory, then the precondition
  check (the existence of \<open>dist\<close>), then the change of the working directory into
  \<open>dist\<close>, then the creation and binding of the socket, the status lines and the
  serve loop; the precondition check happens before the change into \<open>dist\<close>
  and before the socket is bound. (Shown on the runs that enter the serve loop and
  are interrupted there; the shutdown line and the closing of the socket end them.)
\<close>

theorem startup_order:
  assumes "fs e (project_dir e) = Some Dir"
    and "fs e (project_dir e @ [''dist'']) = Some Dir"
    and "bind_error e HOST PORT = None"
    and "sigint_at e = Some k"
    and "9 \<le> k"
  shows "\<exists>s. run e = Some (Inl (SystemExit 0), s)
           \<and> trace s =
               [Chdir (project_dir e),
                Exists (project_dir e @ [''dist'']),
                Chdir (project_dir e @ [''dist'']),
                CreateSocket,
                BindSocket HOST PORT,
                Print msg_serving,
                Print (msg_from (project_dir e @ [''dist''])),
                Print msg_avoids,
                Print msg_press,
                Print (replicate 50 CHR ''-''),
                ServeForever,
                Print msg_stopped,
                CloseSocket]"
  by (simp add: run_interrupted_serving [OF assms] startup_trace_def)

theorem startup_order_witness:
  "fs sample_env (project_dir sample_env) = Some Dir
   \<and> fs sample_env (project_dir sample_env @ [''dist'']) = Some Dir
   \<and> bind_error sample_env HOST PORT = None
   \<and> sigint_at sample_env = Some 12
   \<and> (9::nat) \<le> 12
   \<and> (\<exists>s. run sample_env = Some (Inl (SystemExit 0), s)
          \<and> take 5 (trace s) =
               [Chdir [''app''], Exists [''app'', ''dist''], Chdir [''app'', ''dist''],
                CreateSocket, BindSocket ''localhost'' 8000])"
  using startup_order [of sample_env 12]
  by (auto simp add: sample_env_simps sample_fs_simps HOST_def PORT_def)

text \<open>
  C6 (a defect of the code). The claim is that, when the precondition check
  succeeds, the working directory is changed into \<open>dist\<close> before the server
  starts. The check is \<open>Path.exists\<close>, which is also true of a regular file. With
  a regular file named \<open>dist\<close> beside the script the check passes (no message,
  no exit with status 1), \<open>os.chdir\<close> into it raises \<open>NotADirectoryError\<close>,
  which nothing catches, the working directory stays the script's directory and
  no socket is created. The script's comments (\<open>Check if dist directory exists\<close>,
  \<open>Change to dist directory\<close>) and its message (\<open>'dist' directory not found\<close>)
  say that a directory is meant.
\<close>

theorem dist_regular_file_passes_check:
  "fs filed_env (project_dir filed_env @ [''dist'']) = Some (File ''not a directory'')
   \<and> run filed_env =
       Some (Inl (OSError ''ENOTDIR''),
             \<lparr>cwd = [''app''], clock = 3, listening = None,
              trace = [Chdir [''app''], Exists [''app'', ''dist''], Chdir [''app'', ''dist'']],
              sent = []\<rparr>)"
  using run_dist_is_file [of filed_env "''not a directory''"]
  by (simp add: filed_env_def sample_env_def quiet_until_def)

text \<open>
  When \<open>dist\<close> is a directory, the working directory is changed into it before
  the socket is created and bound, it is still \<open>dist\<close> when the run ends, and
  every request accepted by the serve loop is answered by a handler whose
  directory is \<open>dist\<close> (see \<open>GET_file_below_directory\<close> for what that handler
  sends).
\<close>

lemma serves_from_dist:
  assumes "fs e (project_dir e) = Some Dir"
    and "fs e (project_dir e @ [''dist'']) = Some Dir"
    and "bind_error e HOST PORT = None"
    and "sigint_at e = Some k"
    and "9 \<le> k"
  shows "\<exists>s. run e = Some (Inl (SystemExit 0), s)
           \<and> cwd s = project_dir e @ [''dist'']
           \<and> take 5 (trace s) =
               [Chdir (project_dir e),
                Exists (project_dir e @ [''dist'']),
                Chdir (project_dir e @ [''dist'']),
                CreateSocket,
                BindSocket HOST PORT]
           \<and> sent s = responses e (project_dir e @ [''dist'']) [9..<k]"
  by (simp add: run_interrupted_serving [OF assms] startup_trace_def)

text \<open>
  C7. When binding \<open>(HOST, PORT)\<close> fails, the run ends with an exception that
  nothing catches: never by \<open>sys.exit(0)\<close>, never by returning, never with the
  shutdown message, never having entered the serve loop. With the directories in
  place and no interrupt in the first four steps, the exception is the
  \<open>OSError\<close> of the bind itself.
\<close>

theorem bind_failure_propagates:
  assumes "bind_error e HOST PORT = Some errno"
  shows "\<exists>r s. run e = Some (r, s)
           \<and> r \<noteq> Inl (SystemExit 0)
           \<and> r \<noteq> Inr ()
           \<and> msg_stopped \<notin> set (printed s)
           \<and> ServeForever \<notin> set (trace s)
           \<and> (fs e (project_dir e) = Some Dir
                \<and> fs e (project_dir e @ [''dist'']) = Some Dir
                \<and> quiet_until e 4 \<longrightarrow> r = Inl (OSError errno))"
proof (cases "fs e (project_dir e) = Some Dir
    \<and> fs e (project_dir e @ [''dist'']) = Some Dir \<and> quiet_until e 4")
  case True
  then show ?thesis
    using run_bind_fails [of e errno] assms by (simp add: printed_def)
next
  case False
  with run_bind_fails_any [OF assms] show ?thesis by blast
qed

theorem bind_failure_propagates_witness:
  "bind_error busy_env HOST PORT = Some ''EADDRINUSE''
   \<and> fs busy_env (project_dir busy_env) = Some Dir
   \<and> fs busy_env (project_dir busy_env @ [''dist'']) = Some Dir
   \<and> quiet_until busy_env 4
   \<and> (\<exists>s. run busy_env = Some (Inl (OSError ''EADDRINUSE''), s)
          \<and> msg_stopped \<notin> set (printed s)
          \<and> ServeForever \<notin> set (trace s))"
  using bind_failure_propagates [of busy_env "''EADDRINUSE''"]
  by (auto simp add: busy_env_simps sample_fs_simps quiet_until_def)



text \<open>
  C9. On the path of the missing directory the process state has changed when the
  program exits with status 1: the first system call was \<open>os.chdir\<close> into the
  script's directory, the existence check came second, and the working directory
  at the exit is the script's directory.
\<close>

theorem fatal_exit_after_chdir:
  assumes "fs e (project_dir e) = Some Dir"
    and "fs e (project_dir e @ [''dist'']) = None"
    and "quiet_until e 4"
  shows "\<exists>s. run e = Some (Inl (SystemExit 1), s)
           \<and> cwd s = project_dir e
           \<and> take 2 (trace s) = [Chdir (project_dir e), Exists (project_dir e @ [''dist''])]"
  by (simp add: run_dist_missing [OF assms])

theorem fatal_exit_after_chdir_witness:
  "fs unbuilt_env (project_dir unbuilt_env) = Some Dir
   \<and> fs unbuilt_env (project_dir unbuilt_env @ [''dist'']) = None
   \<and> quiet_until unbuilt_env 4
   \<and> start_cwd unbuilt_env = [''home'']
   \<and> (\<exists>s. run unbuilt_env = Some (Inl (SystemExit 1), s) \<and> cwd s = [''app''])"
  using fatal_exit_after_chdir [of unbuilt_env]
  by (auto simp add: unbuilt_env_simps quiet_until_def unbuilt_env_def sample_env_def)

text \<open>
  C10. With the directories in place and the port free, an interrupt that arrives
  before the serve loop is entered (at a step below 9: during a \<open>chdir\<close>, the
  existence check, the server's constructor or a status line) is not caught: the
  run ends with the \<open>KeyboardInterrupt\<close> itself and the shutdown message is not
  printed. Only an interrupt inside the serve loop (step 9 or later) leads to the
  shutdown message and \<open>sys.exit(0)\<close>.
\<close>

theorem startup_interrupt_not_caught:
  assumes "fs e (project_dir e) = Some Dir"
    and "fs e (project_dir e @ [''dist'']) = Some Dir"
    and "bind_error e HOST PORT = None"
    and "sigint_at e = Some k"
  shows "(k < 9 \<longrightarrow>
            (\<exists>s. run e = Some (Inl KeyboardInterrupt, s) \<and> msg_stopped \<notin> set (printed s)))
         \<and> (9 \<le> k \<longrightarrow>
            (\<exists>s. run e = Some (Inl (SystemExit 0), s) \<and> msg_stopped \<in> set (printed s)))"
proof (intro conjI impI)
  assume "k < 9"
  with run_interrupted_startup [OF assms]
  show "\<exists>s. run e = Some (Inl KeyboardInterrupt, s) \<and> msg_stopped \<notin> set (printed s)"
    by blast
next
  assume "9 \<le> k"
  with run_interrupted_serving [OF assms]
  show "\<exists>s. run e = Some (Inl (SystemExit 0), s) \<and> msg_stopped \<in> set (printed s)"
    by (simp add: printed_def startup_trace_def)
qed

theorem startup_interrupt_not_caught_witness:
  "fs early_env (project_dir early_env) = Some Dir
   \<and> fs early_env (project_dir early_env @ [''dist'']) = Some Dir
   \<and> bind_error early_env HOST PORT = None
   \<and> sigint_at early_env = Some 5
   \<and> (5::nat) < 9
   \<and> (\<exists>s. run early_env = Some (Inl KeyboardInterrupt, s) \<and> msg_stopped \<notin> set (printed s))"
  using startup_interrupt_not_caught [of early_env 5]
  by (simp add: early_env_simps sample_fs_simps)

end
